theory Spec2Isabelle
  imports Main "HOL-Library.Sublist"
begin

section \<open>Data model\<close>

text \<open>
  The middleware \<^verbatim>\<open>validate(schemas, controller)\<close> of \<^verbatim>\<open>validate.ts\<close> works on
  untyped JavaScript values. The type variable \<open>'v\<close> stands for these values (request
  sections and parsed results alike), \<open>'e\<close> for every thrown value that is not a
  \<^verbatim>\<open>ZodError\<close>, and \<open>'m\<close> for all the fields of an Express request that the
  middleware never names.
\<close>

subsection \<open>Thrown values\<close>

text \<open>
  Of a Zod issue only \<^verbatim>\<open>e.message\<close> is read. A thrown value either is an
  instance of \<^verbatim>\<open>ZodError\<close>, carrying its \<^verbatim>\<open>errors\<close> array, or it is anything else.
\<close>

record ZodIssue =
  message :: string

datatype 'e thrown =
    ZodError (errors: "ZodIssue list")
  | OtherError 'e

text \<open>\<^verbatim>\<open>error instanceof ZodError\<close>\<close>

fun instanceof_ZodError :: "'e thrown \<Rightarrow> bool" where
  "instanceof_ZodError (ZodError _) = True"
| "instanceof_ZodError (OtherError _) = False"

subsection \<open>Request, schemas, response\<close>

text \<open>
  The request: the three sections the schemas read, the three attributes the middleware
  writes (\<open>None\<close> while an attribute has never been assigned), and, as the record's
  extension, everything else.
\<close>

record 'v request =
  body :: 'v
  query :: 'v
  params :: 'v
  validatedData :: "'v option"
  validatedQuery :: "'v option"
  validatedParams :: "'v option"

text \<open>
  A schema is used through \<^verbatim>\<open>parse\<close> alone, which returns the parsed value or throws.
\<close>

record ('v, 'e) ZodTypeAny =
  parse :: "'v \<Rightarrow> 'e thrown + 'v"

text \<open>\<^verbatim>\<open>ZodSchemaShape\<close> of \<^verbatim>\<open>types.ts\<close>: three optional schemas.\<close>

record ('v, 'e) ZodSchemaShape =
  body :: "('v, 'e) ZodTypeAny option"
  query :: "('v, 'e) ZodTypeAny option"
  params :: "('v, 'e) ZodTypeAny option"

text \<open>The JSON values the middleware sends: an object literal with two string fields.\<close>

datatype json =
    JString string
  | JObject "(string \<times> json) list"

text \<open>
  The Express response. \<^verbatim>\<open>res.status(code)\<close> stores the code and returns \<^verbatim>\<open>res\<close>
  itself, which is what lets the source chain \<^verbatim>\<open>.json(...)\<close> on it; \<^verbatim>\<open>res.json(body)\<close>
  sends the body or throws (for instance when the headers have been sent already). How
  \<^verbatim>\<open>json\<close> reacts is a parameter of the model; \<^verbatim>\<open>status\<close>, called with 400, and
  \<^verbatim>\<open>next\<close> are taken to return, and appear as effects only.
\<close>

record 'e Response =
  json :: "json \<Rightarrow> 'e thrown + unit"

subsection \<open>Effects\<close>

text \<open>
  What the middleware does to the outside is recorded, in order, as a list of effects:
  each call of a schema's \<^verbatim>\<open>parse\<close> with its argument, each assignment to an
  attribute of the request, the call of the controller with the request as it is at that
  moment, the calls \<^verbatim>\<open>res.status(code)\<close> and \<^verbatim>\<open>.json(body)\<close>, and the call
  \<^verbatim>\<open>next(error)\<close>.
\<close>

datatype req_section = Body | Query | Params

datatype attribute = ValidatedData | ValidatedQuery | ValidatedParams

datatype ('v, 'm, 'e) effect =
    Parse req_section 'v
  | Assign attribute 'v
  | Controller "('v, 'm) request_scheme"
  | ResStatus nat
  | ResJson json
  | Next "'e thrown"

record ('v, 'm, 'e) state =
  req :: "('v, 'm) request_scheme"
  trace :: "('v, 'm, 'e) effect list"

text \<open>
  A statement runs on a state and either completes (\<open>None\<close>) or throws (\<open>Some error\<close>);
  the state it leaves is the one at that point.
\<close>

type_synonym ('v, 'm, 'e) stmt =
  "('v, 'm, 'e) state \<Rightarrow> 'e thrown option \<times> ('v, 'm, 'e) state"

definition emit :: "('v, 'm, 'e) effect \<Rightarrow> ('v, 'm, 'e) state \<Rightarrow> ('v, 'm, 'e) state" where
  "emit ev s = s\<lparr>trace := trace s @ [ev]\<rparr>"

text \<open>Sequential composition: a throw skips the rest.\<close>

definition seq :: "('v, 'm, 'e) stmt \<Rightarrow> ('v, 'm, 'e) stmt \<Rightarrow> ('v, 'm, 'e) stmt" where
  "seq f g s = (case f s of (None, s') \<Rightarrow> g s' | (Some error, s') \<Rightarrow> (Some error, s'))"

text \<open>
  The controller is opaque: called with the request and the response, it returns
  (or its promise resolves), or it throws (or its promise rejects, which \<^verbatim>\<open>await\<close>
  turns into a throw).
\<close>

type_synonym ('v, 'm, 'e) controller =
  "('v, 'm) request_scheme \<Rightarrow> 'e Response \<Rightarrow> 'e thrown + unit"

section \<open>The middleware\<close>

text \<open>\<^verbatim>\<open>Array.prototype.join\<close> on an array of strings.\<close>

fun join :: "string \<Rightarrow> string list \<Rightarrow> string" where
  "join sep [] = []"
| "join sep [x] = x"
| "join sep (x # y # ys) = x @ sep @ join sep (y # ys)"

text \<open>
  \<^verbatim>\<open>if (schemas.body) { const parsedBody = schemas.body.parse(req.body);
  (req as any).validatedData = parsedBody; }\<close>
\<close>

definition validate_body :: "('v, 'e) ZodSchemaShape \<Rightarrow> ('v, 'm, 'e) stmt" where
  "validate_body schemas s =
     (case ZodSchemaShape.body schemas of
        None \<Rightarrow> (None, s)
      | Some schema \<Rightarrow>
          (let input = request.body (req s);
               s1 = emit (Parse Body input) s
           in case parse schema input of
                Inl error \<Rightarrow> (Some error, s1)
              | Inr parsedBody \<Rightarrow>
                  (None, emit (Assign ValidatedData parsedBody)
                           (s1\<lparr>req := (req s1)\<lparr>validatedData := Some parsedBody\<rparr>\<rparr>))))"

text \<open>
  \<^verbatim>\<open>if (schemas.query) { const parsedQuery = schemas.query.parse(req.query);
  (req as any).validatedQuery = parsedQuery; }\<close>
\<close>

definition validate_query :: "('v, 'e) ZodSchemaShape \<Rightarrow> ('v, 'm, 'e) stmt" where
  "validate_query schemas s =
     (case ZodSchemaShape.query schemas of
        None \<Rightarrow> (None, s)
      | Some schema \<Rightarrow>
          (let input = request.query (req s);
               s1 = emit (Parse Query input) s
           in case parse schema input of
                Inl error \<Rightarrow> (Some error, s1)
              | Inr parsedQuery \<Rightarrow>
                  (None, emit (Assign ValidatedQuery parsedQuery)
                           (s1\<lparr>req := (req s1)\<lparr>validatedQuery := Some parsedQuery\<rparr>\<rparr>))))"

text \<open>
  \<^verbatim>\<open>if (schemas.params) { const parsedParams = schemas.params.parse(req.params);
  (req as any).validatedParams = parsedParams; }\<close>
\<close>

definition validate_params :: "('v, 'e) ZodSchemaShape \<Rightarrow> ('v, 'm, 'e) stmt" where
  "validate_params schemas s =
     (case ZodSchemaShape.params schemas of
        None \<Rightarrow> (None, s)
      | Some schema \<Rightarrow>
          (let input = request.params (req s);
               s1 = emit (Parse Params input) s
           in case parse schema input of
                Inl error \<Rightarrow> (Some error, s1)
              | Inr parsedParams \<Rightarrow>
                  (None, emit (Assign ValidatedParams parsedParams)
                           (s1\<lparr>req := (req s1)\<lparr>validatedParams := Some parsedParams\<rparr>\<rparr>))))"

text \<open>\<^verbatim>\<open>await controller(req as any, res, next);\<close>\<close>

definition call_controller ::
  "('v, 'm, 'e) controller \<Rightarrow> 'e Response \<Rightarrow> ('v, 'm, 'e) stmt" where
  "call_controller controller res s =
     (let s1 = emit (Controller (req s)) s
      in case controller (req s) res of
           Inl error \<Rightarrow> (Some error, s1)
         | Inr _ \<Rightarrow> (None, s1))"

text \<open>The body of the \<^verbatim>\<open>try\<close>: the three validations, then the controller.\<close>

definition try_block ::
  "('v, 'e) ZodSchemaShape \<Rightarrow> ('v, 'm, 'e) controller \<Rightarrow> 'e Response \<Rightarrow> ('v, 'm, 'e) stmt" where
  "try_block schemas controller res =
     seq (validate_body schemas)
       (seq (validate_query schemas)
          (seq (validate_params schemas)
             (call_controller controller res)))"

text \<open>
  The \<^verbatim>\<open>catch (error)\<close> clause. A throw inside it is not caught by the \<^verbatim>\<open>try\<close> it
  belongs to: it leaves the function.
\<close>

definition catch_block :: "'e Response \<Rightarrow> 'e thrown \<Rightarrow> ('v, 'm, 'e) stmt" where
  "catch_block res error s =
     (if instanceof_ZodError error then
        (let formatted = join '', '' (map message (errors error));
             payload = JObject [(''status'', JString ''error''), (''message'', JString formatted)];
             s1 = emit (ResStatus 400) s;
             s2 = emit (ResJson payload) s1
         in case json res payload of
              Inl err \<Rightarrow> (Some err, s2)
            | Inr _ \<Rightarrow> (None, s2))
      else (None, emit (Next error) s))"

text \<open>
  The handler \<^verbatim>\<open>validate(schemas, controller)\<close> returns, run on \<^verbatim>\<open>(req, res, next)\<close>.
  It is an \<^verbatim>\<open>async\<close> function: the first component of the result tells how its promise
  settles, \<open>None\<close> for fulfilled and \<open>Some error\<close> for rejected with \<open>error\<close>; the second
  is the request as the handler leaves it, with the effects it performed.
\<close>

definition validate ::
  "('v, 'e) ZodSchemaShape \<Rightarrow> ('v, 'm, 'e) controller \<Rightarrow>
     ('v, 'm) request_scheme \<Rightarrow> 'e Response \<Rightarrow> 'e thrown option \<times> ('v, 'm, 'e) state" where
  "validate schemas controller req0 res =
     (case try_block schemas controller res \<lparr>req = req0, trace = []\<rparr> of
        (None, s) \<Rightarrow> (None, s)
      | (Some error, s) \<Rightarrow> catch_block res error s)"

section \<open>Vocabulary of the properties\<close>

text \<open>
  The error a schema raises on an input: \<open>None\<close> when the schema is absent or its
  \<^verbatim>\<open>parse\<close> returns, \<open>Some error\<close> when the schema is present and its \<^verbatim>\<open>parse\<close>
  throws \<open>error\<close>.
\<close>

definition raised :: "('v, 'e) ZodTypeAny option \<Rightarrow> 'v \<Rightarrow> 'e thrown option" where
  "raised schema input =
     (case schema of
        None \<Rightarrow> None
      | Some sch \<Rightarrow> (case parse sch input of Inl error \<Rightarrow> Some error | Inr _ \<Rightarrow> None))"

text \<open>Every schema of the set that is present parses its section of the request.\<close>

definition all_present_pass ::
  "('v, 'e) ZodSchemaShape \<Rightarrow> ('v, 'm) request_scheme \<Rightarrow> bool" where
  "all_present_pass schemas r =
     (raised (ZodSchemaShape.body schemas) (request.body r) = None \<and>
      raised (ZodSchemaShape.query schemas) (request.query r) = None \<and>
      raised (ZodSchemaShape.params schemas) (request.params r) = None)"


fun is_Assign :: "attribute \<Rightarrow> ('v, 'm, 'e) effect \<Rightarrow> bool" where
  "is_Assign a (Assign a' _) = (a = a')"
| "is_Assign a _ = False"

fun is_Controller :: "('v, 'm, 'e) effect \<Rightarrow> bool" where
  "is_Controller (Controller _) = True"
| "is_Controller _ = False"

fun is_response :: "('v, 'm, 'e) effect \<Rightarrow> bool" where
  "is_response (ResStatus _) = True"
| "is_response (ResJson _) = True"
| "is_response _ = False"

fun is_Next :: "('v, 'm, 'e) effect \<Rightarrow> bool" where
  "is_Next (Next _) = True"
| "is_Next _ = False"

text \<open>How many times the controller was called.\<close>

definition handler_calls :: "('v, 'm, 'e) effect list \<Rightarrow> nat" where
  "handler_calls tr = length (filter is_Controller tr)"




definition validation_failure_path :: "('v, 'm, 'e) effect list \<Rightarrow> bool" where
  "validation_failure_path tr = list_ex is_response tr"

definition unrelated_error_path :: "('v, 'm, 'e) effect list \<Rightarrow> bool" where
  "unrelated_error_path tr = list_ex is_Next tr"

section \<open>Sample inputs\<close>

text \<open>
  Concrete schemas, requests, controllers and responses, over strings, on which the
  theorems below are run. A schema that accepts its input returns it marked as parsed, so
  that the parsed value differs from the raw one.
\<close>

definition name_required :: "(string, string) ZodTypeAny" where
  "name_required =
     \<lparr>parse = (\<lambda>input.
        if input = ''{}'' then Inl (ZodError [\<lparr>message = ''name: Required''\<rparr>])
        else Inr (''parsed '' @ input))\<rparr>"

definition page_numeric :: "(string, string) ZodTypeAny" where
  "page_numeric =
     \<lparr>parse = (\<lambda>input.
        if input = ''page=x''
        then Inl (ZodError [\<lparr>message = ''page: Expected number''\<rparr>,
                            \<lparr>message = ''page: Too small''\<rparr>])
        else Inr (''parsed '' @ input))\<rparr>"

definition id_numeric :: "(string, string) ZodTypeAny" where
  "id_numeric =
     \<lparr>parse = (\<lambda>input.
        if input = ''id=abc'' then Inl (ZodError [\<lparr>message = ''id: Invalid''\<rparr>])
        else Inr (''parsed '' @ input))\<rparr>"

definition crashing_schema :: "(string, string) ZodTypeAny" where
  "crashing_schema = \<lparr>parse = (\<lambda>input. Inl (OtherError ''TypeError''))\<rparr>"

definition good_request :: "string request" where
  "good_request =
     \<lparr>request.body = ''{name: Ann}'', request.query = ''page=2'', request.params = ''id=7'',
      validatedData = None, validatedQuery = None, validatedParams = None\<rparr>"

definition bad_request :: "string request" where
  "bad_request =
     \<lparr>request.body = ''{}'', request.query = ''page=x'', request.params = ''id=abc'',
      validatedData = None, validatedQuery = None, validatedParams = None\<rparr>"

definition bad_query_request :: "string request" where
  "bad_query_request =
     \<lparr>request.body = ''{name: Ann}'', request.query = ''page=x'', request.params = ''id=7'',
      validatedData = None, validatedQuery = None, validatedParams = None\<rparr>"

definition all_schemas :: "(string, string) ZodSchemaShape" where
  "all_schemas =
     \<lparr>ZodSchemaShape.body = Some name_required,
      ZodSchemaShape.query = Some page_numeric,
      ZodSchemaShape.params = Some id_numeric\<rparr>"

definition body_only :: "(string, string) ZodSchemaShape" where
  "body_only =
     \<lparr>ZodSchemaShape.body = Some name_required,
      ZodSchemaShape.query = None,
      ZodSchemaShape.params = None\<rparr>"

definition crashing_query :: "(string, string) ZodSchemaShape" where
  "crashing_query =
     \<lparr>ZodSchemaShape.body = Some name_required,
      ZodSchemaShape.query = Some crashing_schema,
      ZodSchemaShape.params = Some id_numeric\<rparr>"

definition sort_known :: "(string, string) ZodTypeAny" where
  "sort_known =
     \<lparr>parse = (\<lambda>input.
        if input = ''sort=up'' then Inl (ZodError [\<lparr>message = ''sort: Invalid option''\<rparr>])
        else Inr (''parsed '' @ input))\<rparr>"

definition sort_only :: "(string, string) ZodSchemaShape" where
  "sort_only =
     \<lparr>ZodSchemaShape.body = None,
      ZodSchemaShape.query = Some sort_known,
      ZodSchemaShape.params = None\<rparr>"

definition silent_schema :: "(string, string) ZodTypeAny" where
  "silent_schema = \<lparr>parse = (\<lambda>input. Inl (ZodError []))\<rparr>"

definition silent_body :: "(string, string) ZodSchemaShape" where
  "silent_body =
     \<lparr>ZodSchemaShape.body = Some silent_schema,
      ZodSchemaShape.query = None,
      ZodSchemaShape.params = None\<rparr>"

definition disguised_schema :: "(string, string) ZodTypeAny" where
  "disguised_schema = \<lparr>parse = (\<lambda>input. Inl (OtherError ''name: Required''))\<rparr>"

definition disguised_body :: "(string, string) ZodSchemaShape" where
  "disguised_body =
     \<lparr>ZodSchemaShape.body = Some disguised_schema,
      ZodSchemaShape.query = None,
      ZodSchemaShape.params = None\<rparr>"

definition replying_controller :: "(string, unit, string) controller" where
  "replying_controller = (\<lambda>r res. Inr ())"

definition failing_controller :: "(string, unit, string) controller" where
  "failing_controller = (\<lambda>r res. Inl (OtherError ''db down''))"

definition reparsing_controller :: "(string, unit, string) controller" where
  "reparsing_controller = (\<lambda>r res. Inl (ZodError [\<lparr>message = ''inner: Required''\<rparr>]))"

definition open_response :: "string Response" where
  "open_response = \<lparr>json = (\<lambda>payload. Inr ())\<rparr>"

definition sent_response :: "string Response" where
  "sent_response = \<lparr>json = (\<lambda>payload. Inl (OtherError ''ERR_HTTP_HEADERS_SENT''))\<rparr>"

section \<open>Case analysis\<close>

text \<open>A schema of the set is absent, or its \<^verbatim>\<open>parse\<close> returns, or it throws.\<close>

lemma schema_cases [case_names absent returns raises]:
  fixes schema :: "('v, 'e) ZodTypeAny option" and input :: 'v
  obtains "schema = None"
  | sch v where "schema = Some sch" "parse sch input = Inr v"
  | sch e where "schema = Some sch" "parse sch input = Inl e"
  by (cases schema; cases "parse (the schema) input"; simp)

lemmas validate_defs =
  validate_def try_block_def seq_def validate_body_def validate_query_def
  validate_params_def call_controller_def catch_block_def emit_def Let_def

section \<open>The handler runs exactly when every present schema validates\<close>



section \<open>Errors raised by the controller\<close>

text \<open>
  C2, as stated: every error the controller raises, after all present schemas have
  validated, is passed to \<^verbatim>\<open>next\<close> and is never answered with the 400 envelope.
  The call of the controller stands inside the \<^verbatim>\<open>try\<close>, and the \<^verbatim>\<open>catch\<close> clause
  looks at the kind of the error only, not at where it comes from. So a controller that
  throws a \<^verbatim>\<open>ZodError\<close> (one that parses something itself, say) gets the 400 envelope made
  of its messages, and \<^verbatim>\<open>next\<close> is not called: here the body validates, the controller
  is called and raises, and the middleware answers 400.
\<close>

theorem handler_zod_error_answered_400:
  "validate body_only reparsing_controller good_request open_response =
     (None,
      \<lparr>req = good_request\<lparr>validatedData := Some ''parsed {name: Ann}''\<rparr>,
       trace =
         [Parse Body ''{name: Ann}'',
          Assign ValidatedData ''parsed {name: Ann}'',
          Controller (good_request\<lparr>validatedData := Some ''parsed {name: Ann}''\<rparr>),
          ResStatus 400,
          ResJson (JObject [(''status'', JString ''error''),
                            (''message'', JString ''inner: Required'')])]\<rparr>) \<and>
   all_present_pass body_only good_request \<and>
   reparsing_controller (good_request\<lparr>validatedData := Some ''parsed {name: Ann}''\<rparr>) open_response =
     Inl (ZodError [\<lparr>message = ''inner: Required''\<rparr>]) \<and>
   \<not> unrelated_error_path
       (trace (snd (validate body_only reparsing_controller good_request open_response))) \<and>
   validation_failure_path
       (trace (snd (validate body_only reparsing_controller good_request open_response)))"
  by (simp add: validate_defs name_required_def good_request_def body_only_def
      reparsing_controller_def open_response_def all_present_pass_def raised_def
      unrelated_error_path_def validation_failure_path_def)

text \<open>
  C2, amended: every error the controller raises that is not a \<^verbatim>\<open>ZodError\<close> is passed
  to \<^verbatim>\<open>next\<close>, unchanged, as the last thing the middleware does; \<^verbatim>\<open>next\<close> is called
  that once, the middleware sends no answer of its own, and its promise is fulfilled.
  (That the controller was called says that every present schema had validated.)
\<close>

theorem handler_other_error_forwarded:
  assumes run: "validate schemas controller r res = (settled, s)"
    and invoked: "Controller r' \<in> set (trace s)"
    and raises: "controller r' res = Inl (OtherError x)"
  shows "settled = None \<and>
         last (trace s) = Next (OtherError x) \<and>
         filter is_Next (trace s) = [Next (OtherError x)] \<and>
         filter is_response (trace s) = []"
proof -
  have s: "s = snd (validate schemas controller r res)"
    and settled: "settled = fst (validate schemas controller r res)"
    using run by simp_all
  show ?thesis
    unfolding s settled
    by (insert invoked [unfolded s] raises,
        rule schema_cases [where schema = "ZodSchemaShape.body schemas" and input = "request.body r"];
        rule schema_cases [where schema = "ZodSchemaShape.query schemas" and input = "request.query r"];
        rule schema_cases [where schema = "ZodSchemaShape.params schemas" and input = "request.params r"];
        auto simp: validate_defs split: sum.splits thrown.splits)
qed

theorem handler_other_error_forwarded_witness:
  "validate body_only failing_controller good_request open_response =
     (None,
      \<lparr>req = good_request\<lparr>validatedData := Some ''parsed {name: Ann}''\<rparr>,
       trace =
         [Parse Body ''{name: Ann}'',
          Assign ValidatedData ''parsed {name: Ann}'',
          Controller (good_request\<lparr>validatedData := Some ''parsed {name: Ann}''\<rparr>),
          Next (OtherError ''db down'')]\<rparr>) \<and>
   failing_controller (good_request\<lparr>validatedData := Some ''parsed {name: Ann}''\<rparr>) open_response =
     Inl (OtherError ''db down'') \<and>
   filter is_Next
     (trace (snd (validate body_only failing_controller good_request open_response))) =
     [Next (OtherError ''db down'')] \<and>
   filter is_response
     (trace (snd (validate body_only failing_controller good_request open_response))) = []"
proof -
  have run:
    "validate body_only failing_controller good_request open_response =
       (None,
        \<lparr>req = good_request\<lparr>validatedData := Some ''parsed {name: Ann}''\<rparr>,
         trace =
           [Parse Body ''{name: Ann}'',
            Assign ValidatedData ''parsed {name: Ann}'',
            Controller (good_request\<lparr>validatedData := Some ''parsed {name: Ann}''\<rparr>),
            Next (OtherError ''db down'')]\<rparr>)"
    by (simp add: validate_defs name_required_def good_request_def body_only_def
        failing_controller_def open_response_def)
  have invoked:
    "Controller (good_request\<lparr>validatedData := Some ''parsed {name: Ann}''\<rparr>) \<in>
       set (trace
         \<lparr>req = good_request\<lparr>validatedData := Some ''parsed {name: Ann}''\<rparr>,
          trace =
            [Parse Body ''{name: Ann}'',
             Assign ValidatedData ''parsed {name: Ann}'',
             Controller (good_request\<lparr>validatedData := Some ''parsed {name: Ann}''\<rparr>),
             Next (OtherError ''db down'' :: string thrown)]\<rparr>)"
    by simp
  have raises:
    "failing_controller (good_request\<lparr>validatedData := Some ''parsed {name: Ann}''\<rparr>) open_response =
       Inl (OtherError ''db down'')"
    by (simp add: failing_controller_def)
  show ?thesis
    using run raises handler_other_error_forwarded [OF run invoked raises]
    by simp
qed

section \<open>The answer to a validation failure\<close>

text \<open>
  C3. When the first schema to raise, in the order body, query, params, raises a
  \<^verbatim>\<open>ZodError\<close>, the middleware answers with status 400 and the body
  \<^verbatim>\<open>{"status": "error", "message": m}\<close>, and these two calls are all it does with
  the response. The string \<open>m\<close> is made of the messages of that error's issues, in the
  order of the issues: the first message as it is, then each later one with a comma and a
  space before it; an error without issues gives the empty string.
\<close>

theorem validation_failure_answer:
  assumes run: "validate schemas controller r res = (settled, s)"
    and first_failure:
      "raised (ZodSchemaShape.body schemas) (request.body r) = Some (ZodError issues) \<or>
       raised (ZodSchemaShape.body schemas) (request.body r) = None \<and>
       raised (ZodSchemaShape.query schemas) (request.query r) = Some (ZodError issues) \<or>
       raised (ZodSchemaShape.body schemas) (request.body r) = None \<and>
       raised (ZodSchemaShape.query schemas) (request.query r) = None \<and>
       raised (ZodSchemaShape.params schemas) (request.params r) = Some (ZodError issues)"
  shows "filter is_response (trace s) =
           [ResStatus 400,
            ResJson (JObject
              [(''status'', JString ''error''),
               (''message'',
                JString (case issues of
                           [] \<Rightarrow> []
                         | i # rest \<Rightarrow>
                             message i @ concat (map (\<lambda>j. '', '' @ message j) rest)))])]"
proof -
  have join_Cons: "join sep (x # xs) = x @ concat (map (\<lambda>y. sep @ y) xs)"
    for sep x and xs :: "string list"
    by (induction xs arbitrary: x) simp_all
  have join_map:
    "join sep (map f xs) =
       (case xs of [] \<Rightarrow> [] | x # rest \<Rightarrow> f x @ concat (map (\<lambda>y. sep @ f y) rest))"
    for sep and f :: "ZodIssue \<Rightarrow> string" and xs
    by (cases xs) (simp_all add: join_Cons comp_def)
  have s: "s = snd (validate schemas controller r res)"
    using run by simp
  show ?thesis
    unfolding s
    by (insert first_failure,
        rule schema_cases [where schema = "ZodSchemaShape.body schemas" and input = "request.body r"];
        rule schema_cases [where schema = "ZodSchemaShape.query schemas" and input = "request.query r"];
        rule schema_cases [where schema = "ZodSchemaShape.params schemas" and input = "request.params r"];
        simp add: validate_defs raised_def join_map split: sum.split)
qed

text \<open>
  The query schema reports two issues on \<^verbatim>\<open>page=x\<close>; the body before it passes and the
  params after it would fail too. On another request the body's schema reports one issue,
  and a schema that raises a \<^verbatim>\<open>ZodError\<close> without issues gives the empty message.
\<close>

theorem validation_failure_answer_witness:
  "validate all_schemas replying_controller
       (bad_query_request\<lparr>request.params := ''id=abc''\<rparr>) open_response =
     (None,
      \<lparr>req = bad_query_request
         \<lparr>request.params := ''id=abc'', validatedData := Some ''parsed {name: Ann}''\<rparr>,
       trace =
         [Parse Body ''{name: Ann}'',
          Assign ValidatedData ''parsed {name: Ann}'',
          Parse Query ''page=x'',
          ResStatus 400,
          ResJson (JObject [(''status'', JString ''error''),
                            (''message'', JString ''page: Expected number, page: Too small'')])]\<rparr>) \<and>
   raised (ZodSchemaShape.body all_schemas) ''{name: Ann}'' = None \<and>
   raised (ZodSchemaShape.query all_schemas) ''page=x'' =
     Some (ZodError [\<lparr>message = ''page: Expected number''\<rparr>, \<lparr>message = ''page: Too small''\<rparr>]) \<and>
   raised (ZodSchemaShape.params all_schemas) ''id=abc'' =
     Some (ZodError [\<lparr>message = ''id: Invalid''\<rparr>]) \<and>
   filter is_response
     (trace (snd (validate all_schemas replying_controller
        (bad_query_request\<lparr>request.params := ''id=abc''\<rparr>) open_response))) =
     [ResStatus 400,
      ResJson (JObject [(''status'', JString ''error''),
                        (''message'', JString ''page: Expected number, page: Too small'')])] \<and>
   raised (ZodSchemaShape.body all_schemas) (request.body bad_request) =
     Some (ZodError [\<lparr>message = ''name: Required''\<rparr>]) \<and>
   filter is_response
     (trace (snd (validate all_schemas replying_controller bad_request open_response))) =
     [ResStatus 400,
      ResJson (JObject [(''status'', JString ''error''),
                        (''message'', JString ''name: Required'')])] \<and>
   raised (ZodSchemaShape.body silent_body) (request.body bad_request) = Some (ZodError []) \<and>
   filter is_response
     (trace (snd (validate silent_body replying_controller bad_request open_response))) =
     [ResStatus 400,
      ResJson (JObject [(''status'', JString ''error''), (''message'', JString [])])]"
proof -
  have run:
    "validate all_schemas replying_controller
         (bad_query_request\<lparr>request.params := ''id=abc''\<rparr>) open_response =
       (None,
        \<lparr>req = bad_query_request
           \<lparr>request.params := ''id=abc'', validatedData := Some ''parsed {name: Ann}''\<rparr>,
         trace =
           [Parse Body ''{name: Ann}'',
            Assign ValidatedData ''parsed {name: Ann}'',
            Parse Query ''page=x'',
            ResStatus 400,
            ResJson (JObject [(''status'', JString ''error''),
                              (''message'', JString ''page: Expected number, page: Too small'')])]\<rparr>)"
    by (simp add: validate_defs name_required_def page_numeric_def id_numeric_def
        bad_query_request_def all_schemas_def replying_controller_def open_response_def)
  have body_passes:
    "raised (ZodSchemaShape.body all_schemas)
         (request.body (bad_query_request\<lparr>request.params := ''id=abc''\<rparr>)) = None"
    by (simp add: raised_def name_required_def bad_query_request_def all_schemas_def)
  have query_raises:
    "raised (ZodSchemaShape.query all_schemas)
         (request.query (bad_query_request\<lparr>request.params := ''id=abc''\<rparr>)) =
       Some (ZodError [\<lparr>message = ''page: Expected number''\<rparr>, \<lparr>message = ''page: Too small''\<rparr>])"
    by (simp add: raised_def page_numeric_def bad_query_request_def all_schemas_def)
  have run_body:
    "validate all_schemas replying_controller bad_request open_response =
       (None,
        \<lparr>req = bad_request,
         trace =
           [Parse Body ''{}'',
            ResStatus 400,
            ResJson (JObject [(''status'', JString ''error''),
                              (''message'', JString ''name: Required'')])]\<rparr>)"
    by (simp add: validate_defs name_required_def page_numeric_def id_numeric_def
        bad_request_def all_schemas_def replying_controller_def open_response_def)
  have body_raises:
    "raised (ZodSchemaShape.body all_schemas) (request.body bad_request) =
       Some (ZodError [\<lparr>message = ''name: Required''\<rparr>])"
    by (simp add: raised_def name_required_def bad_request_def all_schemas_def)
  have run_silent:
    "validate silent_body replying_controller bad_request open_response =
       (None,
        \<lparr>req = bad_request,
         trace =
           [Parse Body ''{}'',
            ResStatus 400,
            ResJson (JObject [(''status'', JString ''error''), (''message'', JString [])])]\<rparr>)"
    by (simp add: validate_defs silent_schema_def silent_body_def
        bad_request_def replying_controller_def open_response_def)
  have silent_raises:
    "raised (ZodSchemaShape.body silent_body) (request.body bad_request) = Some (ZodError [])"
    by (simp add: raised_def silent_schema_def silent_body_def)
  have body_literal: "raised (ZodSchemaShape.body all_schemas) ''{name: Ann}'' = None"
    by (simp add: raised_def name_required_def all_schemas_def)
  have query_literal:
    "raised (ZodSchemaShape.query all_schemas) ''page=x'' =
       Some (ZodError [\<lparr>message = ''page: Expected number''\<rparr>, \<lparr>message = ''page: Too small''\<rparr>])"
    by (simp add: raised_def page_numeric_def all_schemas_def)
  have params_literal:
    "raised (ZodSchemaShape.params all_schemas) ''id=abc'' =
       Some (ZodError [\<lparr>message = ''id: Invalid''\<rparr>])"
    by (simp add: raised_def id_numeric_def all_schemas_def)
  show ?thesis
    using run run_body run_silent body_literal query_literal params_literal
      body_raises silent_raises
      validation_failure_answer [OF run disjI2 [OF disjI1 [OF conjI [OF body_passes query_raises]]], simplified]
      validation_failure_answer [OF run_body disjI1 [OF body_raises], simplified]
      validation_failure_answer [OF run_silent disjI1 [OF silent_raises], simplified]
    by simp
qed

section \<open>Order of the validations\<close>



section \<open>Errors that are not validation errors\<close>

text \<open>
  C5, as stated: every error raised in the validation steps or while the 400 answer is
  built, that is not a validation error, is passed to \<^verbatim>\<open>next\<close>; in particular an error
  raised while the 400 answer is built. The answer is built inside the \<^verbatim>\<open>catch\<close>
  clause, and nothing catches what that clause throws: when \<^verbatim>\<open>res.json\<close> throws, the
  error leaves the handler as the rejection of its promise, and \<^verbatim>\<open>next\<close> is not called.
\<close>

theorem response_error_not_forwarded:
  "validate body_only replying_controller bad_request sent_response =
     (Some (OtherError ''ERR_HTTP_HEADERS_SENT''),
      \<lparr>req = bad_request,
       trace =
         [Parse Body ''{}'',
          ResStatus 400,
          ResJson (JObject [(''status'', JString ''error''),
                            (''message'', JString ''name: Required'')])]\<rparr>) \<and>
   json sent_response
     (JObject [(''status'', JString ''error''), (''message'', JString ''name: Required'')]) =
     Inl (OtherError ''ERR_HTTP_HEADERS_SENT'') \<and>
   \<not> unrelated_error_path
       (trace (snd (validate body_only replying_controller bad_request sent_response)))"
  by (simp add: validate_defs name_required_def bad_request_def body_only_def
      replying_controller_def sent_response_def unrelated_error_path_def)

text \<open>
  C5, amended: when the first schema to raise, in the order body, query, params, raises
  an error that is not a \<^verbatim>\<open>ZodError\<close>, the middleware passes that error to \<^verbatim>\<open>next\<close>,
  unchanged, as the last thing it does; it sends no answer of its own, does not call the
  controller, and its promise is fulfilled.
\<close>

theorem validation_other_error_forwarded:
  assumes run: "validate schemas controller r res = (settled, s)"
    and first_failure:
      "raised (ZodSchemaShape.body schemas) (request.body r) = Some (OtherError x) \<or>
       raised (ZodSchemaShape.body schemas) (request.body r) = None \<and>
       raised (ZodSchemaShape.query schemas) (request.query r) = Some (OtherError x) \<or>
       raised (ZodSchemaShape.body schemas) (request.body r) = None \<and>
       raised (ZodSchemaShape.query schemas) (request.query r) = None \<and>
       raised (ZodSchemaShape.params schemas) (request.params r) = Some (OtherError x)"
  shows "settled = None \<and>
         last (trace s) = Next (OtherError x) \<and>
         filter is_Next (trace s) = [Next (OtherError x)] \<and>
         filter is_response (trace s) = [] \<and>
         handler_calls (trace s) = 0"
proof -
  have s: "s = snd (validate schemas controller r res)"
    and settled: "settled = fst (validate schemas controller r res)"
    using run by simp_all
  show ?thesis
    unfolding s settled
    by (insert first_failure,
        rule schema_cases [where schema = "ZodSchemaShape.body schemas" and input = "request.body r"];
        rule schema_cases [where schema = "ZodSchemaShape.query schemas" and input = "request.query r"];
        rule schema_cases [where schema = "ZodSchemaShape.params schemas" and input = "request.params r"];
        simp add: validate_defs raised_def handler_calls_def)
qed

theorem validation_other_error_forwarded_witness:
  "validate crashing_query replying_controller good_request open_response =
     (None,
      \<lparr>req = good_request\<lparr>validatedData := Some ''parsed {name: Ann}''\<rparr>,
       trace =
         [Parse Body ''{name: Ann}'',
          Assign ValidatedData ''parsed {name: Ann}'',
          Parse Query ''page=2'',
          Next (OtherError ''TypeError'')]\<rparr>) \<and>
   raised (ZodSchemaShape.body crashing_query) (request.body good_request) = None \<and>
   raised (ZodSchemaShape.query crashing_query) (request.query good_request) =
     Some (OtherError ''TypeError'') \<and>
   filter is_response
     (trace (snd (validate crashing_query replying_controller good_request open_response))) = [] \<and>
   handler_calls
     (trace (snd (validate crashing_query replying_controller good_request open_response))) = 0"
proof -
  have run:
    "validate crashing_query replying_controller good_request open_response =
       (None,
        \<lparr>req = good_request\<lparr>validatedData := Some ''parsed {name: Ann}''\<rparr>,
         trace =
           [Parse Body ''{name: Ann}'',
            Assign ValidatedData ''parsed {name: Ann}'',
            Parse Query ''page=2'',
            Next (OtherError ''TypeError'')]\<rparr>)"
    by (simp add: validate_defs name_required_def id_numeric_def crashing_schema_def
        good_request_def crashing_query_def replying_controller_def open_response_def)
  have body_passes:
    "raised (ZodSchemaShape.body crashing_query) (request.body good_request) = None"
    by (simp add: raised_def name_required_def id_numeric_def crashing_schema_def
        good_request_def crashing_query_def)
  have query_crashes:
    "raised (ZodSchemaShape.query crashing_query) (request.query good_request) =
       Some (OtherError ''TypeError'')"
    by (simp add: raised_def name_required_def id_numeric_def crashing_schema_def
        good_request_def crashing_query_def)
  show ?thesis
    using run body_passes query_crashes
      validation_other_error_forwarded
        [OF run disjI2 [OF disjI1 [OF conjI [OF body_passes query_crashes]]]]
    by simp
qed

section \<open>The kind of the error decides\<close>

text \<open>
  C6. Whatever error the \<^verbatim>\<open>try\<close> block raises, its kind alone decides what follows.
  A \<^verbatim>\<open>ZodError\<close>, whatever its issues and even with none, is answered by the
  middleware itself: status 400 and the envelope of its messages are the two effects
  added, \<^verbatim>\<open>next\<close> is not called and the request is left as it was. An error of any
  other kind, whatever it carries, is passed to \<^verbatim>\<open>next\<close> as it is, and that call is
  the only thing done after the error was raised: the state is the one the \<^verbatim>\<open>try\<close>
  block left, with this one effect added, no answer is sent and the promise is fulfilled.
\<close>

theorem error_kind_decides_path:
  assumes thrown: "try_block schemas controller res \<lparr>req = r, trace = []\<rparr> = (Some error, s0)"
    and run: "validate schemas controller r res = (settled, s)"
  shows "(\<forall>issues. error = ZodError issues \<longrightarrow>
            validation_failure_path (trace s) \<and>
            \<not> unrelated_error_path (trace s) \<and>
            req s = req s0 \<and>
            trace s =
              trace s0 @
              [ResStatus 400,
               ResJson (JObject
                 [(''status'', JString ''error''),
                  (''message'',
                   JString (case issues of
                              [] \<Rightarrow> []
                            | i # rest \<Rightarrow>
                                message i @ concat (map (\<lambda>j. '', '' @ message j) rest)))])]) \<and>
         (\<forall>x. error = OtherError x \<longrightarrow>
            unrelated_error_path (trace s) \<and>
            \<not> validation_failure_path (trace s) \<and>
            settled = None \<and>
            s = s0\<lparr>trace := trace s0 @ [Next (OtherError x)]\<rparr>)"
proof -
  have join_Cons: "join sep (x # xs) = x @ concat (map (\<lambda>y. sep @ y) xs)"
    for sep x and xs :: "string list"
    by (induction xs arbitrary: x) simp_all
  have join_map:
    "join sep (map f xs) =
       (case xs of [] \<Rightarrow> [] | x # rest \<Rightarrow> f x @ concat (map (\<lambda>y. sep @ f y) rest))"
    for sep and f :: "ZodIssue \<Rightarrow> string" and xs
    by (cases xs) (simp_all add: join_Cons comp_def)
  have s: "s = snd (catch_block res error s0)"
    and settled: "settled = fst (catch_block res error s0)"
    using run thrown by (simp_all add: validate_def)
  have quiet: "\<not> list_ex is_response (trace s0) \<and> \<not> list_ex is_Next (trace s0)"
    by (insert thrown,
        rule schema_cases [where schema = "ZodSchemaShape.body schemas" and input = "request.body r"];
        rule schema_cases [where schema = "ZodSchemaShape.query schemas" and input = "request.query r"];
        rule schema_cases [where schema = "ZodSchemaShape.params schemas" and input = "request.params r"];
        auto simp: try_block_def seq_def validate_body_def validate_query_def
          validate_params_def call_controller_def emit_def Let_def split: sum.splits)
  show ?thesis
    unfolding s settled using quiet
    by (cases error)
      (simp_all add: catch_block_def emit_def Let_def validation_failure_path_def
        unrelated_error_path_def join_map split: sum.split)
qed

text \<open>
  Three schemas that raise on the same body: a \<^verbatim>\<open>ZodError\<close> with one issue, an error
  of another kind that carries the very text of that issue, and a \<^verbatim>\<open>ZodError\<close> with
  no issue at all. The first and the last are answered with 400, the second goes to
  \<^verbatim>\<open>next\<close>.
\<close>

theorem error_kind_decides_path_witness:
  "try_block body_only replying_controller open_response \<lparr>req = bad_request, trace = []\<rparr> =
     (Some (ZodError [\<lparr>message = ''name: Required''\<rparr>]),
      \<lparr>req = bad_request, trace = [Parse Body ''{}'']\<rparr>) \<and>
   validate body_only replying_controller bad_request open_response =
     (None,
      \<lparr>req = bad_request,
       trace =
         [Parse Body ''{}'',
          ResStatus 400,
          ResJson (JObject [(''status'', JString ''error''),
                            (''message'', JString ''name: Required'')])]\<rparr>) \<and>
   validation_failure_path
     (trace (snd (validate body_only replying_controller bad_request open_response))) \<and>
   \<not> unrelated_error_path
     (trace (snd (validate body_only replying_controller bad_request open_response))) \<and>
   try_block disguised_body replying_controller open_response \<lparr>req = bad_request, trace = []\<rparr> =
     (Some (OtherError ''name: Required''),
      \<lparr>req = bad_request, trace = [Parse Body ''{}'']\<rparr>) \<and>
   validate disguised_body replying_controller bad_request open_response =
     (None,
      \<lparr>req = bad_request,
       trace = [Parse Body ''{}'', Next (OtherError ''name: Required'')]\<rparr>) \<and>
   unrelated_error_path
     (trace (snd (validate disguised_body replying_controller bad_request open_response))) \<and>
   \<not> validation_failure_path
     (trace (snd (validate disguised_body replying_controller bad_request open_response))) \<and>
   try_block silent_body replying_controller open_response \<lparr>req = bad_request, trace = []\<rparr> =
     (Some (ZodError []), \<lparr>req = bad_request, trace = [Parse Body ''{}'']\<rparr>) \<and>
   validate silent_body replying_controller bad_request open_response =
     (None,
      \<lparr>req = bad_request,
       trace =
         [Parse Body ''{}'',
          ResStatus 400,
          ResJson (JObject [(''status'', JString ''error''), (''message'', JString [])])]\<rparr>) \<and>
   validation_failure_path
     (trace (snd (validate silent_body replying_controller bad_request open_response))) \<and>
   \<not> unrelated_error_path
     (trace (snd (validate silent_body replying_controller bad_request open_response)))"
proof -
  have thrown_zod:
    "try_block body_only replying_controller open_response \<lparr>req = bad_request, trace = []\<rparr> =
       (Some (ZodError [\<lparr>message = ''name: Required''\<rparr>]),
        \<lparr>req = bad_request, trace = [Parse Body ''{}'']\<rparr>)"
    by (simp add: validate_defs name_required_def bad_request_def body_only_def)
  have run_zod:
    "validate body_only replying_controller bad_request open_response =
       (None,
        \<lparr>req = bad_request,
         trace =
           [Parse Body ''{}'',
            ResStatus 400,
            ResJson (JObject [(''status'', JString ''error''),
                              (''message'', JString ''name: Required'')])]\<rparr>)"
    by (simp add: validate_defs name_required_def bad_request_def body_only_def
        open_response_def)
  have thrown_other:
    "try_block disguised_body replying_controller open_response \<lparr>req = bad_request, trace = []\<rparr> =
       (Some (OtherError ''name: Required''),
        \<lparr>req = bad_request, trace = [Parse Body ''{}'']\<rparr>)"
    by (simp add: validate_defs disguised_schema_def bad_request_def disguised_body_def)
  have run_other:
    "validate disguised_body replying_controller bad_request open_response =
       (None,
        \<lparr>req = bad_request,
         trace = [Parse Body ''{}'', Next (OtherError ''name: Required'')]\<rparr>)"
    by (simp add: validate_defs disguised_schema_def bad_request_def disguised_body_def)
  have thrown_silent:
    "try_block silent_body replying_controller open_response \<lparr>req = bad_request, trace = []\<rparr> =
       (Some (ZodError []), \<lparr>req = bad_request, trace = [Parse Body ''{}'']\<rparr>)"
    by (simp add: validate_defs silent_schema_def bad_request_def silent_body_def)
  have run_silent:
    "validate silent_body replying_controller bad_request open_response =
       (None,
        \<lparr>req = bad_request,
         trace =
           [Parse Body ''{}'',
            ResStatus 400,
            ResJson (JObject [(''status'', JString ''error''), (''message'', JString [])])]\<rparr>)"
    by (simp add: validate_defs silent_schema_def bad_request_def silent_body_def
        open_response_def)
  show ?thesis
    using thrown_zod run_zod thrown_other run_other thrown_silent run_silent
      error_kind_decides_path [OF thrown_zod run_zod, simplified]
      error_kind_decides_path [OF thrown_other run_other, simplified]
      error_kind_decides_path [OF thrown_silent run_silent, simplified]
    by simp
qed

section \<open>When every present schema validates\<close>

text \<open>
  C7. When every present schema parses its section of the request, the controller is
  called exactly once, and on the request it is called with, the attribute of each
  present schema holds the value that schema's \<^verbatim>\<open>parse\<close> returned on its section:
  \<^verbatim>\<open>validatedData\<close> for the body, \<^verbatim>\<open>validatedQuery\<close> for the query,
  \<^verbatim>\<open>validatedParams\<close> for the params.
\<close>

theorem all_valid_handler_called_once:
  assumes run: "validate schemas controller r res = (settled, s)"
    and valid: "all_present_pass schemas r"
  shows "handler_calls (trace s) = 1 \<and>
         (\<exists>r'. filter is_Controller (trace s) = [Controller r'] \<and>
            (\<forall>sch. ZodSchemaShape.body schemas = Some sch \<longrightarrow>
               (\<exists>v. parse sch (request.body r) = Inr v \<and> validatedData r' = Some v)) \<and>
            (\<forall>sch. ZodSchemaShape.query schemas = Some sch \<longrightarrow>
               (\<exists>v. parse sch (request.query r) = Inr v \<and> validatedQuery r' = Some v)) \<and>
            (\<forall>sch. ZodSchemaShape.params schemas = Some sch \<longrightarrow>
               (\<exists>v. parse sch (request.params r) = Inr v \<and> validatedParams r' = Some v)))"
proof -
  have s: "s = snd (validate schemas controller r res)"
    using run by simp
  show ?thesis
    unfolding s
    by (insert valid,
        rule schema_cases [where schema = "ZodSchemaShape.body schemas" and input = "request.body r"];
        rule schema_cases [where schema = "ZodSchemaShape.query schemas" and input = "request.query r"];
        rule schema_cases [where schema = "ZodSchemaShape.params schemas" and input = "request.params r"];
        simp add: validate_defs all_present_pass_def raised_def handler_calls_def
          split: sum.split thrown.split)
qed

theorem all_valid_handler_called_once_witness:
  "validate all_schemas replying_controller good_request open_response =
     (None,
      \<lparr>req = good_request
         \<lparr>validatedData := Some ''parsed {name: Ann}'',
          validatedQuery := Some ''parsed page=2'',
          validatedParams := Some ''parsed id=7''\<rparr>,
       trace =
         [Parse Body ''{name: Ann}'',
          Assign ValidatedData ''parsed {name: Ann}'',
          Parse Query ''page=2'',
          Assign ValidatedQuery ''parsed page=2'',
          Parse Params ''id=7'',
          Assign ValidatedParams ''parsed id=7'',
          Controller (good_request
            \<lparr>validatedData := Some ''parsed {name: Ann}'',
             validatedQuery := Some ''parsed page=2'',
             validatedParams := Some ''parsed id=7''\<rparr>)]\<rparr>) \<and>
   all_present_pass all_schemas good_request \<and>
   parse name_required (request.body good_request) = Inr ''parsed {name: Ann}'' \<and>
   parse page_numeric (request.query good_request) = Inr ''parsed page=2'' \<and>
   parse id_numeric (request.params good_request) = Inr ''parsed id=7'' \<and>
   handler_calls
     (trace (snd (validate all_schemas replying_controller good_request open_response))) = 1"
proof -
  have run:
    "validate all_schemas replying_controller good_request open_response =
       (None,
        \<lparr>req = good_request
           \<lparr>validatedData := Some ''parsed {name: Ann}'',
            validatedQuery := Some ''parsed page=2'',
            validatedParams := Some ''parsed id=7''\<rparr>,
         trace =
           [Parse Body ''{name: Ann}'',
            Assign ValidatedData ''parsed {name: Ann}'',
            Parse Query ''page=2'',
            Assign ValidatedQuery ''parsed page=2'',
            Parse Params ''id=7'',
            Assign ValidatedParams ''parsed id=7'',
            Controller (good_request
              \<lparr>validatedData := Some ''parsed {name: Ann}'',
               validatedQuery := Some ''parsed page=2'',
               validatedParams := Some ''parsed id=7''\<rparr>)]\<rparr>)"
    by (simp add: validate_defs name_required_def page_numeric_def id_numeric_def
        good_request_def all_schemas_def replying_controller_def open_response_def)
  have valid: "all_present_pass all_schemas good_request"
    by (simp add: all_present_pass_def raised_def name_required_def page_numeric_def
        id_numeric_def good_request_def all_schemas_def)
  show ?thesis
    using run valid all_valid_handler_called_once [OF run valid]
    by (simp add: name_required_def page_numeric_def id_numeric_def good_request_def
        all_schemas_def replying_controller_def open_response_def)
qed

section \<open>A query that fails after the body\<close>

text \<open>
  C8. When the query's schema raises a \<^verbatim>\<open>ZodError\<close> and the body's schema is absent
  or passes, the middleware answers 400 with the messages of the query's error (the first
  as it is, each later one after a comma and a space) and the controller is not called.
  With a body schema present, the value it parsed has been assigned to
  \<^verbatim>\<open>validatedData\<close> before the query is parsed, and is there when the answer is sent;
  with none, \<^verbatim>\<open>validatedData\<close> is as it came.
\<close>

theorem query_failure_after_body:
  assumes run: "validate schemas controller r res = (settled, s)"
    and body_ok: "raised (ZodSchemaShape.body schemas) (request.body r) = None"
    and query_fails:
      "raised (ZodSchemaShape.query schemas) (request.query r) = Some (ZodError issues)"
  shows "filter is_response (trace s) =
           [ResStatus 400,
            ResJson (JObject
              [(''status'', JString ''error''),
               (''message'',
                JString (case issues of
                           [] \<Rightarrow> []
                         | i # rest \<Rightarrow>
                             message i @ concat (map (\<lambda>j. '', '' @ message j) rest)))])] \<and>
         handler_calls (trace s) = 0 \<and>
         (ZodSchemaShape.body schemas = None \<longrightarrow>
            validatedData (req s) = validatedData r \<and>
            trace s =
              [Parse Query (request.query r),
               ResStatus 400,
               ResJson (JObject
                 [(''status'', JString ''error''),
                  (''message'',
                   JString (case issues of
                              [] \<Rightarrow> []
                            | i # rest \<Rightarrow>
                                message i @ concat (map (\<lambda>j. '', '' @ message j) rest)))])]) \<and>
         (\<forall>sch v. ZodSchemaShape.body schemas = Some sch \<and> parse sch (request.body r) = Inr v \<longrightarrow>
            validatedData (req s) = Some v \<and>
            trace s =
              [Parse Body (request.body r),
               Assign ValidatedData v,
               Parse Query (request.query r),
               ResStatus 400,
               ResJson (JObject
                 [(''status'', JString ''error''),
                  (''message'',
                   JString (case issues of
                              [] \<Rightarrow> []
                            | i # rest \<Rightarrow>
                                message i @ concat (map (\<lambda>j. '', '' @ message j) rest)))])])"
proof -
  have join_Cons: "join sep (x # xs) = x @ concat (map (\<lambda>y. sep @ y) xs)"
    for sep x and xs :: "string list"
    by (induction xs arbitrary: x) simp_all
  have join_map:
    "join sep (map f xs) =
       (case xs of [] \<Rightarrow> [] | x # rest \<Rightarrow> f x @ concat (map (\<lambda>y. sep @ f y) rest))"
    for sep and f :: "ZodIssue \<Rightarrow> string" and xs
    by (cases xs) (simp_all add: join_Cons comp_def)
  have s: "s = snd (validate schemas controller r res)"
    using run by simp
  show ?thesis
    unfolding s
    by (insert body_ok query_fails,
        rule schema_cases [where schema = "ZodSchemaShape.body schemas" and input = "request.body r"];
        rule schema_cases [where schema = "ZodSchemaShape.query schemas" and input = "request.query r"];
        rule schema_cases [where schema = "ZodSchemaShape.params schemas" and input = "request.params r"];
        simp add: validate_defs raised_def handler_calls_def join_map split: sum.split)
qed

theorem query_failure_after_body_witness:
  "validate all_schemas replying_controller bad_query_request open_response =
     (None,
      \<lparr>req = bad_query_request\<lparr>validatedData := Some ''parsed {name: Ann}''\<rparr>,
       trace =
         [Parse Body ''{name: Ann}'',
          Assign ValidatedData ''parsed {name: Ann}'',
          Parse Query ''page=x'',
          ResStatus 400,
          ResJson (JObject [(''status'', JString ''error''),
                            (''message'', JString ''page: Expected number, page: Too small'')])]\<rparr>) \<and>
   raised (ZodSchemaShape.body all_schemas) (request.body bad_query_request) = None \<and>
   raised (ZodSchemaShape.query all_schemas) (request.query bad_query_request) =
     Some (ZodError [\<lparr>message = ''page: Expected number''\<rparr>, \<lparr>message = ''page: Too small''\<rparr>]) \<and>
   parse name_required (request.body bad_query_request) = Inr ''parsed {name: Ann}'' \<and>
   handler_calls
     (trace (snd (validate all_schemas replying_controller bad_query_request open_response))) = 0 \<and>
   validatedData
     (req (snd (validate all_schemas replying_controller bad_query_request open_response))) =
     Some ''parsed {name: Ann}'' \<and>
   validate sort_only replying_controller
       (bad_query_request\<lparr>request.query := ''sort=up''\<rparr>) open_response =
     (None,
      \<lparr>req = bad_query_request\<lparr>request.query := ''sort=up''\<rparr>,
       trace =
         [Parse Query ''sort=up'',
          ResStatus 400,
          ResJson (JObject [(''status'', JString ''error''),
                            (''message'', JString ''sort: Invalid option'')])]\<rparr>) \<and>
   ZodSchemaShape.body sort_only = None \<and>
   raised (ZodSchemaShape.query sort_only) ''sort=up'' =
     Some (ZodError [\<lparr>message = ''sort: Invalid option''\<rparr>]) \<and>
   validatedData
     (req (snd (validate sort_only replying_controller
        (bad_query_request\<lparr>request.query := ''sort=up''\<rparr>) open_response))) =
     validatedData bad_query_request"
proof -
  have run:
    "validate all_schemas replying_controller bad_query_request open_response =
       (None,
        \<lparr>req = bad_query_request\<lparr>validatedData := Some ''parsed {name: Ann}''\<rparr>,
         trace =
           [Parse Body ''{name: Ann}'',
            Assign ValidatedData ''parsed {name: Ann}'',
            Parse Query ''page=x'',
            ResStatus 400,
            ResJson (JObject [(''status'', JString ''error''),
                              (''message'', JString ''page: Expected number, page: Too small'')])]\<rparr>)"
    by (simp add: validate_defs name_required_def page_numeric_def id_numeric_def
        bad_query_request_def all_schemas_def replying_controller_def open_response_def)
  have body_ok:
    "raised (ZodSchemaShape.body all_schemas) (request.body bad_query_request) = None"
    by (simp add: raised_def name_required_def bad_query_request_def all_schemas_def)
  have query_fails:
    "raised (ZodSchemaShape.query all_schemas) (request.query bad_query_request) =
       Some (ZodError [\<lparr>message = ''page: Expected number''\<rparr>, \<lparr>message = ''page: Too small''\<rparr>])"
    by (simp add: raised_def page_numeric_def bad_query_request_def all_schemas_def)
  have body_parsed:
    "parse name_required (request.body bad_query_request) = Inr ''parsed {name: Ann}''"
    by (simp add: name_required_def bad_query_request_def)
  have run_absent:
    "validate sort_only replying_controller
         (bad_query_request\<lparr>request.query := ''sort=up''\<rparr>) open_response =
       (None,
        \<lparr>req = bad_query_request\<lparr>request.query := ''sort=up''\<rparr>,
         trace =
           [Parse Query ''sort=up'',
            ResStatus 400,
            ResJson (JObject [(''status'', JString ''error''),
                              (''message'', JString ''sort: Invalid option'')])]\<rparr>)"
    by (simp add: validate_defs sort_known_def sort_only_def bad_query_request_def
        replying_controller_def open_response_def)
  have query_literal:
    "raised (ZodSchemaShape.query sort_only) ''sort=up'' =
       Some (ZodError [\<lparr>message = ''sort: Invalid option''\<rparr>])"
    by (simp add: raised_def sort_known_def sort_only_def)
  have body_absent: "ZodSchemaShape.body sort_only = None"
    by (simp add: sort_only_def)
  have body_absent_ok:
    "raised (ZodSchemaShape.body sort_only)
       (request.body (bad_query_request\<lparr>request.query := ''sort=up''\<rparr>)) = None"
    by (simp add: raised_def sort_only_def)
  have query_fails_alone:
    "raised (ZodSchemaShape.query sort_only)
         (request.query (bad_query_request\<lparr>request.query := ''sort=up''\<rparr>)) =
       Some (ZodError [\<lparr>message = ''sort: Invalid option''\<rparr>])"
    by (simp add: raised_def sort_known_def sort_only_def)
  show ?thesis
    using run body_ok query_fails body_parsed run_absent body_absent query_literal
      query_failure_after_body [OF run body_ok query_fails, simplified]
      query_failure_after_body [OF run_absent body_absent_ok query_fails_alone, simplified]
    by simp
qed

section \<open>The empty schema set\<close>



section \<open>What the middleware writes on the request\<close>

text \<open>
  C10. The middleware leaves the body, the query, the params and every other field of
  the request as they came; the only fields it writes are \<^verbatim>\<open>validatedData\<close>,
  \<^verbatim>\<open>validatedQuery\<close> and \<^verbatim>\<open>validatedParams\<close>. Each of them is assigned at most once,
  and only a value that the schema of its section, present in the set, returned on that
  section; the request then holds that value. An attribute that is not assigned is as it
  came.
\<close>

theorem only_validated_attributes_written:
  assumes run: "validate schemas controller r res = (settled, s)"
  shows "request.body (req s) = request.body r \<and>
         request.query (req s) = request.query r \<and>
         request.params (req s) = request.params r \<and>
         request.more (req s) = request.more r \<and>
         length (filter (is_Assign ValidatedData) (trace s)) \<le> 1 \<and>
         length (filter (is_Assign ValidatedQuery) (trace s)) \<le> 1 \<and>
         length (filter (is_Assign ValidatedParams) (trace s)) \<le> 1 \<and>
         (\<forall>v. Assign ValidatedData v \<in> set (trace s) \<longrightarrow>
            (\<exists>sch. ZodSchemaShape.body schemas = Some sch \<and> parse sch (request.body r) = Inr v) \<and>
            validatedData (req s) = Some v) \<and>
         (\<forall>v. Assign ValidatedQuery v \<in> set (trace s) \<longrightarrow>
            (\<exists>sch. ZodSchemaShape.query schemas = Some sch \<and> parse sch (request.query r) = Inr v) \<and>
            validatedQuery (req s) = Some v) \<and>
         (\<forall>v. Assign ValidatedParams v \<in> set (trace s) \<longrightarrow>
            (\<exists>sch. ZodSchemaShape.params schemas = Some sch \<and> parse sch (request.params r) = Inr v) \<and>
            validatedParams (req s) = Some v) \<and>
         (\<not> list_ex (is_Assign ValidatedData) (trace s) \<longrightarrow>
            validatedData (req s) = validatedData r) \<and>
         (\<not> list_ex (is_Assign ValidatedQuery) (trace s) \<longrightarrow>
            validatedQuery (req s) = validatedQuery r) \<and>
         (\<not> list_ex (is_Assign ValidatedParams) (trace s) \<longrightarrow>
            validatedParams (req s) = validatedParams r)"
proof -
  have s: "s = snd (validate schemas controller r res)"
    using run by simp
  show ?thesis
    unfolding s
    by (rule schema_cases [where schema = "ZodSchemaShape.body schemas" and input = "request.body r"];
        rule schema_cases [where schema = "ZodSchemaShape.query schemas" and input = "request.query r"];
        rule schema_cases [where schema = "ZodSchemaShape.params schemas" and input = "request.params r"];
        simp add: validate_defs split: sum.split thrown.split)
qed

theorem only_validated_attributes_written_witness:
  "validate all_schemas replying_controller bad_query_request open_response =
     (None,
      \<lparr>req = bad_query_request\<lparr>validatedData := Some ''parsed {name: Ann}''\<rparr>,
       trace =
         [Parse Body ''{name: Ann}'',
          Assign ValidatedData ''parsed {name: Ann}'',
          Parse Query ''page=x'',
          ResStatus 400,
          ResJson (JObject [(''status'', JString ''error''),
                            (''message'', JString ''page: Expected number, page: Too small'')])]\<rparr>) \<and>
   parse name_required (request.body bad_query_request) = Inr ''parsed {name: Ann}'' \<and>
   request.body
     (req (snd (validate all_schemas replying_controller bad_query_request open_response))) =
     ''{name: Ann}'' \<and>
   validatedData
     (req (snd (validate all_schemas replying_controller bad_query_request open_response))) =
     Some ''parsed {name: Ann}'' \<and>
   validatedQuery
     (req (snd (validate all_schemas replying_controller bad_query_request open_response))) =
     validatedQuery bad_query_request"
proof -
  have run:
    "validate all_schemas replying_controller bad_query_request open_response =
       (None,
        \<lparr>req = bad_query_request\<lparr>validatedData := Some ''parsed {name: Ann}''\<rparr>,
         trace =
           [Parse Body ''{name: Ann}'',
            Assign ValidatedData ''parsed {name: Ann}'',
            Parse Query ''page=x'',
            ResStatus 400,
            ResJson (JObject [(''status'', JString ''error''),
                              (''message'', JString ''page: Expected number, page: Too small'')])]\<rparr>)"
    by (simp add: validate_defs name_required_def page_numeric_def id_numeric_def
        bad_query_request_def all_schemas_def replying_controller_def open_response_def)
  show ?thesis
    using run only_validated_attributes_written [OF run, simplified]
    by (simp add: name_required_def page_numeric_def id_numeric_def bad_query_request_def
        all_schemas_def replying_controller_def open_response_def)
qed

end
